theory Spec2Isabelle
  imports Complex_Main "HOL-Library.AList"
begin

section \<open>Data model (src/types.ts)\<close>

record ImageState =
  dataUrl :: string
  mimeType :: string

datatype OutputQuality = low | medium | high

section \<open>JavaScript array primitives used by the history hook\<close>

text \<open>
  \<^verbatim>\<open>xs[i]\<close> on a JavaScript array is \<^verbatim>\<open>undefined\<close> outside \<open>0 \<le> i < length\<close>
  (also at the index \<open>-1\<close>); \<open>None\<close> stands for \<^verbatim>\<open>undefined\<close>.
\<close>

definition js_index :: "'a list \<Rightarrow> int \<Rightarrow> 'a option" where
  "js_index xs i = (if 0 \<le> i \<and> i < int (length xs) then Some (xs ! nat i) else None)"

text \<open>
  \<^verbatim>\<open>xs.slice(0, e)\<close>: a negative end counts from the end of the array, and the end
  is clamped to the array's bounds.
\<close>

definition js_slice0 :: "'a list \<Rightarrow> int \<Rightarrow> 'a list" where
  "js_slice0 xs e =
     (let n = int (length xs);
          k = (if e < 0 then max (n + e) 0 else min e n)
      in take (nat k) xs)"

section \<open>The history hook (src/hooks/useImageHistory.ts)\<close>

text \<open>
  The two React state cells of the hook. TypeScript's element type \<^verbatim>\<open>ImageState\<close> is
  erased at run time, so the element type is a parameter.
\<close>

record 'a hist =
  history :: "'a list"
  currentIndex :: int

text \<open>The initial values of the two cells (lines 5 and 6).\<close>

definition useImageHistory :: "'a option \<Rightarrow> 'a hist" where
  "useImageHistory initialState =
     \<lparr> history = (case initialState of Some s \<Rightarrow> [s] | None \<Rightarrow> []),
       currentIndex = (case initialState of Some s \<Rightarrow> 0 | None \<Rightarrow> - 1) \<rparr>"

text \<open>The values computed in each render from the cells (lines 8 to 11).\<close>

definition canUndo :: "'a hist \<Rightarrow> bool" where
  "canUndo h = (currentIndex h > 0)"

definition canRedo :: "'a hist \<Rightarrow> bool" where
  "canRedo h = (currentIndex h < int (length (history h)) - 1)"

definition current :: "'a hist \<Rightarrow> 'a option" where
  "current h = js_index (history h) (currentIndex h)"

definition original :: "'a hist \<Rightarrow> 'a option" where
  "original h = js_index (history h) 0"

text \<open>
  The callbacks are closures made in a render. Each takes the cells as that render saw
  them (\<open>snap\<close>: the variables \<^verbatim>\<open>history\<close>, \<^verbatim>\<open>currentIndex\<close>, \<^verbatim>\<open>canUndo\<close>, \<^verbatim>\<open>canRedo\<close>
  the closure captured) and the cells as they are when the callback runs (\<open>live\<close>), and
  returns the cells after its state setters have been applied. \<^verbatim>\<open>setHistory(v)\<close> and
  \<^verbatim>\<open>setCurrentIndex(v)\<close> store the value \<open>v\<close>, computed from the captured variables;
  \<^verbatim>\<open>setCurrentIndex(prevIndex => ...)\<close> updates the live cell. A callback invoked from
  the latest render has \<open>snap = live\<close>; one kept by an asynchronous handler across an
  \<^verbatim>\<open>await\<close> still has the \<open>snap\<close> of the render that created it. \<^verbatim>\<open>push\<close> is
  memoized on \<^verbatim>\<open>[history, currentIndex]\<close>, \<^verbatim>\<open>undo\<close> on \<^verbatim>\<open>[canUndo]\<close> and \<^verbatim>\<open>redo\<close> on
  \<^verbatim>\<open>[canRedo]\<close>, so each is remade whenever a variable it captured changes.
\<close>

definition push :: "'a hist \<Rightarrow> 'a \<Rightarrow> 'a hist \<Rightarrow> 'a hist" where
  "push snap state live =
     (let newHistory = js_slice0 (history snap) (currentIndex snap + 1) @ [state]
      in live\<lparr> history := newHistory, currentIndex := int (length newHistory) - 1 \<rparr>)"

definition undo :: "'a hist \<Rightarrow> 'a hist \<Rightarrow> 'a hist" where
  "undo snap live =
     (if canUndo snap then live\<lparr> currentIndex := currentIndex live - 1 \<rparr> else live)"

definition redo :: "'a hist \<Rightarrow> 'a hist \<Rightarrow> 'a hist" where
  "redo snap live =
     (if canRedo snap then live\<lparr> currentIndex := currentIndex live + 1 \<rparr> else live)"

definition reset :: "'a \<Rightarrow> 'a hist \<Rightarrow> 'a hist" where
  "reset state live = live\<lparr> history := [state], currentIndex := 0 \<rparr>"

text \<open>
  A user operation on the history, invoked from the latest render, and a sequence of
  them with a render after each.
\<close>

datatype 'a hist_op = Push 'a | Undo | Redo

fun hist_step :: "'a hist \<Rightarrow> 'a hist_op \<Rightarrow> 'a hist" where
  "hist_step h (Push s) = push h s h"
| "hist_step h Undo = undo h h"
| "hist_step h Redo = redo h h"

definition run_ops :: "'a hist \<Rightarrow> 'a hist_op list \<Rightarrow> 'a hist" where
  "run_ops h ops = foldl hist_step h ops"

text \<open>An initialized history: at least one version, and the cursor inside it.\<close>

definition initialized :: "'a hist \<Rightarrow> bool" where
  "initialized h =
     (history h \<noteq> [] \<and> 0 \<le> currentIndex h \<and> currentIndex h < int (length (history h)))"

section \<open>Values thrown, strings and browser storage\<close>

text \<open>
  What a \<^verbatim>\<open>throw\<close> or a rejected promise carries. The first four are instances of
  \<^verbatim>\<open>Error\<close> (a \<^verbatim>\<open>DOMException\<close> such as the quota error inherits from it) and have a
  message; \<open>NotAnError\<close> is any other thrown value.
\<close>

datatype thrown =
    Error string
  | TypeError string
  | SyntaxError string
  | QuotaExceededError string
  | NotAnError

fun instanceof_Error :: "thrown \<Rightarrow> bool" where
  "instanceof_Error NotAnError = False"
| "instanceof_Error e = True"

fun message :: "thrown \<Rightarrow> string" where
  "message (Error m) = m"
| "message (TypeError m) = m"
| "message (SyntaxError m) = m"
| "message (QuotaExceededError m) = m"
| "message NotAnError = []"

text \<open>
  \<^verbatim>\<open>s.split(c)[1]\<close> for a one-character separator: the text between the first and
  the second \<open>c\<close>, \<^verbatim>\<open>undefined\<close> when \<open>s\<close> has no \<open>c\<close>.
\<close>

definition js_split_1 :: "char \<Rightarrow> string \<Rightarrow> string option" where
  "js_split_1 c s =
     (case dropWhile (\<lambda>x. x \<noteq> c) s of
        [] \<Rightarrow> None
      | x # rest \<Rightarrow> Some (takeWhile (\<lambda>y. y \<noteq> c) rest))"

text \<open>\<^verbatim>\<open>a || b\<close> on a string that may be \<^verbatim>\<open>undefined\<close>: the empty string is falsy.\<close>

definition or_default :: "string option \<Rightarrow> string \<Rightarrow> string" where
  "or_default a b = (case a of None \<Rightarrow> b | Some x \<Rightarrow> if x = [] then b else x)"

text \<open>
  The first capture group of \<^verbatim>\<open>s.match(/data:(.*);base64,/)\<close>: at the leftmost
  position where \<^verbatim>\<open>data:\<close> starts and a match exists, the longest text without a line
  terminator that is followed by \<^verbatim>\<open>;base64,\<close>. Characters are the 8-bit \<open>char\<close>, so
  the line terminators are line feed and carriage return.
\<close>

definition starts_with :: "string \<Rightarrow> string \<Rightarrow> bool" where
  "starts_with pat s = (take (length pat) s = pat)"

definition line_terminator :: "char \<Rightarrow> bool" where
  "line_terminator c = (c = CHR 0x0A \<or> c = CHR 0x0D)"

fun greedy_until :: "string \<Rightarrow> string \<Rightarrow> string option" where
  "greedy_until pat [] = (if pat = [] then Some [] else None)"
| "greedy_until pat (c # cs) =
     (case (if line_terminator c then None else greedy_until pat cs) of
        Some t \<Rightarrow> Some (c # t)
      | None \<Rightarrow> if starts_with pat (c # cs) then Some [] else None)"

fun match_data_mime :: "string \<Rightarrow> string option" where
  "match_data_mime [] = None"
| "match_data_mime (c # cs) =
     (if starts_with ''data:'' (c # cs) then
        (case greedy_until '';base64,'' (drop 5 (c # cs)) of
           Some t \<Rightarrow> Some t
         | None \<Rightarrow> match_data_mime cs)
      else match_data_mime cs)"

declare greedy_until.simps [simp del] match_data_mime.simps [simp del]

text \<open>
  \<^verbatim>\<open>localStorage\<close>: the stored pairs and the room the browser grants. \<^verbatim>\<open>getItem\<close>
  gives \<^verbatim>\<open>null\<close> (\<open>None\<close>) for a missing key, \<^verbatim>\<open>removeItem\<close> never fails, and
  \<^verbatim>\<open>setItem\<close> throws a \<^verbatim>\<open>QuotaExceededError\<close> when the new contents do not fit. The
  room is counted in characters of keys and values.
\<close>

record storage =
  items :: "(string \<times> string) list"
  quota :: nat

definition used :: "(string \<times> string) list \<Rightarrow> nat" where
  "used kvs = sum_list (map (\<lambda>kv. length (fst kv) + length (snd kv)) kvs)"

definition getItem :: "storage \<Rightarrow> string \<Rightarrow> string option" where
  "getItem ls k = map_of (items ls) k"

definition removeItem :: "storage \<Rightarrow> string \<Rightarrow> storage" where
  "removeItem ls k = ls\<lparr> items := AList.delete k (items ls) \<rparr>"

definition setItem :: "storage \<Rightarrow> string \<Rightarrow> string \<Rightarrow> thrown + storage" where
  "setItem ls k v =
     (let items' = AList.update k v (items ls)
      in if used items' > quota ls
         then Inl (QuotaExceededError ''The quota has been exceeded.'')
         else Inr (ls\<lparr> items := items' \<rparr>))"

text \<open>A string or \<^verbatim>\<open>null\<close> used as a condition: \<^verbatim>\<open>null\<close> and the empty string are falsy.\<close>

definition truthy_item :: "string option \<Rightarrow> bool" where
  "truthy_item x = (case x of None \<Rightarrow> False | Some t \<Rightarrow> t \<noteq> [])"

text \<open>
  \<^verbatim>\<open>JSON.stringify\<close> of an \<^verbatim>\<open>ImageState\<close>: its two string fields in order, each
  quoted with the escapes of the JSON string syntax.
\<close>

definition hex_digit :: "nat \<Rightarrow> char" where
  "hex_digit n = ''0123456789abcdef'' ! (n mod 16)"

definition json_escape :: "char \<Rightarrow> string" where
  \<open>json_escape c =
     (if c = CHR 0x08 then [CHR 0x5C, CHR ''b'']
      else if c = CHR 0x09 then [CHR 0x5C, CHR ''t'']
      else if c = CHR 0x0A then [CHR 0x5C, CHR ''n'']
      else if c = CHR 0x0C then [CHR 0x5C, CHR ''f'']
      else if c = CHR 0x0D then [CHR 0x5C, CHR ''r'']
      else if c = CHR 0x22 then [CHR 0x5C, CHR 0x22]
      else if c = CHR 0x5C then [CHR 0x5C, CHR 0x5C]
      else if (of_char c :: nat) < 32
        then [CHR 0x5C, CHR ''u'', CHR ''0'', CHR ''0'',
              hex_digit (of_char c div 16), hex_digit (of_char c)]
      else [c])\<close>

definition json_quote :: "string \<Rightarrow> string" where
  \<open>json_quote s = [CHR 0x22] @ concat (map json_escape s) @ [CHR 0x22]\<close>

definition JSON_stringify :: "ImageState \<Rightarrow> string" where
  \<open>JSON_stringify img =
     ''{"dataUrl":'' @ json_quote (dataUrl img) @ '',"mimeType":'' @ json_quote (mimeType img)
       @ ''}''\<close>

text \<open>
  A value as \<^verbatim>\<open>JSON.parse\<close> returns it. An object lists each of its keys once.
  \<^verbatim>\<open>JSON.parse\<close> itself is the platform's: the load effects below take it as the
  parameter \<open>JSON_parse\<close>, which gives the value or the \<^verbatim>\<open>SyntaxError\<close> thrown.
\<close>

datatype json =
    JNull
  | JBool bool
  | JNumber real
  | JString string
  | JArray "json list"
  | JObject "(string \<times> json) list"

fun truthy :: "json \<Rightarrow> bool" where
  "truthy JNull = False"
| "truthy (JBool b) = b"
| "truthy (JNumber n) = (n \<noteq> 0)"
| "truthy (JString s) = (s \<noteq> [])"
| "truthy (JArray xs) = True"
| "truthy (JObject fs) = True"

text \<open>
  \<^verbatim>\<open>typeof v.k === 'string'\<close> for a value \<open>v\<close> that is not \<^verbatim>\<open>null\<close>: only an object
  can have the property \<open>k\<close> (the keys used are not properties of arrays or primitives).
\<close>

fun typeof_property_is_string :: "json \<Rightarrow> string \<Rightarrow> bool" where
  "typeof_property_is_string (JObject fs) k =
     (case map_of fs k of Some (JString s) \<Rightarrow> True | _ \<Rightarrow> False)"
| "typeof_property_is_string v k = False"

section \<open>The editor component (src/components/Editor.tsx)\<close>

text \<open>
  The state of the editor that the handlers below read and write: the cells of the
  history hook, the component's own React state and the browser's storage. The file
  holds two editors. The first one (lines 50 to 637, superseded) keeps the slider
  position in a motion value and has the field \<open>isControlsOpen\<close>; the second one
  (lines 713 to 1484, canonical) has the view transform, the adjustment sliders and the
  speech error slot. A handler takes the state its render saw (\<open>snap\<close>, what its closure
  captured) and the state when it runs (\<open>live\<close>).
\<close>

record 'a editor =
  imageHistory :: "'a hist"
  prompt :: string
  isLoading :: bool
  loadingMessage :: string
  error :: "string option"
  suggestions :: "string list"
  suggestionError :: "string option"
  speechRecognitionError :: "string option"
  sliderPosition :: real
  isControlsOpen :: bool
  transform :: "real \<times> real \<times> real"
  brightness :: real
  contrast :: real
  localStorage :: storage

text \<open>The state of a freshly mounted editor over a given storage.\<close>

definition mounted :: "storage \<Rightarrow> 'a editor" where
  "mounted ls =
     \<lparr> imageHistory = useImageHistory None, prompt = [], isLoading = False,
       loadingMessage = [], error = None, suggestions = [], suggestionError = None,
       speechRecognitionError = None, sliderPosition = 50, isControlsOpen = False,
       transform = (1, 0, 0), brightness = 100, contrast = 100, localStorage = ls \<rparr>"

definition resetView :: "'a editor \<Rightarrow> 'a editor" where
  "resetView live = live\<lparr> transform := (1, 0, 0) \<rparr>"

definition resetAdjustments :: "'a editor \<Rightarrow> 'a editor" where
  "resetAdjustments live = live\<lparr> brightness := 100, contrast := 100 \<rparr>"

text \<open>
  The request sent to the AI collaborator: the base64 text after the first comma of the
  current data URL, its media type and the instruction.
\<close>

record ai_request =
  base64Image :: "string option"
  requestMimeType :: string
  instruction :: string

text \<open>
  \<^verbatim>\<open>handleSubmit\<close> of the canonical editor (lines 863 to 888) runs in two parts, before
  and after the \<^verbatim>\<open>await\<close>. The first part returns the request it sends, or \<open>None\<close>
  when the guard returns early. The second part runs when the collaborator settles,
  with \<open>Inr\<close> of the new data URL or \<open>Inl\<close> of what it threw; \<^verbatim>\<open>push\<close>, \<^verbatim>\<open>current\<close> and
  \<^verbatim>\<open>prompt\<close> are still the ones of the render in which the submit started.
\<close>

definition handleSubmit_start ::
  "ImageState editor \<Rightarrow> ImageState editor \<Rightarrow> ai_request option \<times> ImageState editor" where
  "handleSubmit_start snap live =
     (case current (imageHistory snap) of
        None \<Rightarrow> (None, live)
      | Some cur \<Rightarrow>
          if prompt snap = [] \<or> isLoading snap then (None, live)
          else (Some \<lparr> base64Image = js_split_1 (CHR '','') (dataUrl cur),
                       requestMimeType = mimeType cur,
                       instruction = prompt snap \<rparr>,
                live\<lparr> isLoading := True, loadingMessage := ''Applying AI edit...'',
                      error := None \<rparr>))"

definition handleSubmit_settle ::
  "ImageState editor \<Rightarrow> thrown + string \<Rightarrow> ImageState editor \<Rightarrow> ImageState editor" where
  "handleSubmit_settle snap outcome live =
     (let live1 =
        (case outcome of
           Inr newImageDataUrl \<Rightarrow>
             (let newMimeType = or_default (match_data_mime newImageDataUrl) ''image/png'';
                  pushed = live\<lparr> imageHistory :=
                             push (imageHistory snap)
                               \<lparr> dataUrl = newImageDataUrl, mimeType = newMimeType \<rparr>
                               (imageHistory live) \<rparr>
              in resetAdjustments
                   (pushed\<lparr> prompt := [],
                            localStorage :=
                              removeItem (localStorage pushed) ''nanoedit-saved-prompt'',
                            sliderPosition := 50 \<rparr>))
         | Inl err \<Rightarrow>
             live\<lparr> error := Some (if instanceof_Error err then message err
                                    else ''An unexpected error occurred.'') \<rparr>)
      in live1\<lparr> isLoading := False, loadingMessage := [] \<rparr>)"

text \<open>
  \<^verbatim>\<open>handlePromptSubmit\<close> of the superseded editor (lines 115 to 138), in the same two
  parts; \<^verbatim>\<open>handleSubmit\<close> there calls it with the prompt of its render.
\<close>

definition handlePromptSubmit_start ::
  "ImageState editor \<Rightarrow> string \<Rightarrow> ImageState editor
     \<Rightarrow> ai_request option \<times> ImageState editor" where
  "handlePromptSubmit_start snap promptText live =
     (case current (imageHistory snap) of
        None \<Rightarrow> (None, live)
      | Some cur \<Rightarrow>
          if promptText = [] \<or> isLoading snap then (None, live)
          else (Some \<lparr> base64Image = js_split_1 (CHR '','') (dataUrl cur),
                       requestMimeType = mimeType cur,
                       instruction = promptText \<rparr>,
                live\<lparr> isLoading := True, loadingMessage := ''Applying AI edit...'',
                      error := None, sliderPosition := 50, isControlsOpen := False \<rparr>))"

definition handlePromptSubmit_settle ::
  "ImageState editor \<Rightarrow> thrown + string \<Rightarrow> ImageState editor \<Rightarrow> ImageState editor" where
  "handlePromptSubmit_settle snap outcome live =
     (let live1 =
        (case outcome of
           Inr newImageDataUrl \<Rightarrow>
             (let newMimeType = or_default (match_data_mime newImageDataUrl) ''image/png''
              in live\<lparr> imageHistory :=
                         push (imageHistory snap)
                           \<lparr> dataUrl = newImageDataUrl, mimeType = newMimeType \<rparr>
                           (imageHistory live),
                       prompt := [] \<rparr>)
         | Inl err \<Rightarrow>
             live\<lparr> error := Some (if instanceof_Error err then message err
                                    else ''An unexpected error occurred.'') \<rparr>)
      in live1\<lparr> isLoading := False, loadingMessage := [] \<rparr>)"

text \<open>
  The undo and redo buttons call the hook's callbacks of the latest render. The
  canonical editor disables them while loading (lines 1250 and 1251); the superseded
  one only at the ends of the history (lines 431 and 432).
\<close>

definition undo_disabled :: "'a editor \<Rightarrow> bool" where
  "undo_disabled st = (\<not> canUndo (imageHistory st) \<or> isLoading st)"

definition undo_disabled_superseded :: "'a editor \<Rightarrow> bool" where
  "undo_disabled_superseded st = (\<not> canUndo (imageHistory st))"

definition click_undo :: "'a editor \<Rightarrow> 'a editor" where
  "click_undo st = st\<lparr> imageHistory := undo (imageHistory st) (imageHistory st) \<rparr>"

subsection \<open>Session persistence\<close>

text \<open>
  The load effect of the canonical editor (lines 746 to 764), run once on the mounted
  editor. The body of its \<^verbatim>\<open>try\<close> gives the state it reaches or what
  \<^verbatim>\<open>JSON.parse\<close> threw; nothing has been written to the state before the parse. The
  \<^verbatim>\<open>catch\<close> logs and removes both keys.
\<close>

definition load_try :: "(string \<Rightarrow> thrown + json) \<Rightarrow> json editor \<Rightarrow> thrown + json editor" where
  "load_try JSON_parse live =
     (let savedImageJSON = getItem (localStorage live) ''nanoedit-saved-image'' in
      case (if truthy_item savedImageJSON
            then (case JSON_parse (the savedImageJSON) of
                    Inl e \<Rightarrow> Inl e
                  | Inr savedImage \<Rightarrow>
                      Inr (live\<lparr> imageHistory := reset savedImage (imageHistory live) \<rparr>))
            else Inr live) of
        Inl e \<Rightarrow> Inl e
      | Inr live1 \<Rightarrow>
          (let savedPrompt = getItem (localStorage live) ''nanoedit-saved-prompt''
           in Inr (if truthy_item savedPrompt then live1\<lparr> prompt := the savedPrompt \<rparr>
                   else live1)))"

definition load :: "(string \<Rightarrow> thrown + json) \<Rightarrow> json editor \<Rightarrow> json editor" where
  "load JSON_parse live =
     (case load_try JSON_parse live of
        Inr live1 \<Rightarrow> live1
      | Inl err \<Rightarrow>
          live\<lparr> localStorage :=
                  removeItem (removeItem (localStorage live) ''nanoedit-saved-image'')
                    ''nanoedit-saved-prompt'' \<rparr>)"

text \<open>
  The load effect of the superseded editor (lines 86 to 105), with its own keys
  (lines 46 and 47). It accepts the parsed value only when it is truthy and has the two
  string fields; the \<^verbatim>\<open>if\<close> has no \<^verbatim>\<open>else\<close>.
\<close>

definition SESSION_IMAGE_KEY :: string where
  "SESSION_IMAGE_KEY = ''nanoedit-session-image''"

definition SESSION_PROMPT_KEY :: string where
  "SESSION_PROMPT_KEY = ''nanoedit-session-prompt''"

definition accepted :: "json \<Rightarrow> bool" where
  "accepted savedImage =
     (truthy savedImage \<and> typeof_property_is_string savedImage ''dataUrl''
        \<and> typeof_property_is_string savedImage ''mimeType'')"

definition load_superseded_try ::
  "(string \<Rightarrow> thrown + json) \<Rightarrow> json editor \<Rightarrow> thrown + json editor" where
  "load_superseded_try JSON_parse live =
     (let savedImageJSON = getItem (localStorage live) SESSION_IMAGE_KEY in
      case (if truthy_item savedImageJSON
            then (case JSON_parse (the savedImageJSON) of
                    Inl e \<Rightarrow> Inl e
                  | Inr savedImage \<Rightarrow>
                      Inr (if accepted savedImage
                           then live\<lparr> imageHistory := reset savedImage (imageHistory live) \<rparr>
                           else live))
            else Inr live) of
        Inl e \<Rightarrow> Inl e
      | Inr live1 \<Rightarrow>
          (let savedPrompt = getItem (localStorage live) SESSION_PROMPT_KEY
           in Inr (if truthy_item savedPrompt then live1\<lparr> prompt := the savedPrompt \<rparr>
                   else live1)))"

definition load_superseded :: "(string \<Rightarrow> thrown + json) \<Rightarrow> json editor \<Rightarrow> json editor" where
  "load_superseded JSON_parse live =
     (case load_superseded_try JSON_parse live of
        Inr live1 \<Rightarrow> live1
      | Inl err \<Rightarrow>
          live\<lparr> localStorage :=
                  removeItem (removeItem (localStorage live) SESSION_IMAGE_KEY)
                    SESSION_PROMPT_KEY \<rparr>)"

text \<open>
  The saves. The auto-save effect of the canonical editor (lines 767 to 771) and its
  \<^verbatim>\<open>handlePromptChange\<close> (lines 890 to 894) call \<^verbatim>\<open>setItem\<close> with no \<^verbatim>\<open>try\<close> around it:
  the result is the storage written, or what \<^verbatim>\<open>setItem\<close> threw, which leaves the effect
  or the handler. The state update queued before the write stays.
\<close>

definition autoSave :: "ImageState editor \<Rightarrow> thrown option \<times> ImageState editor" where
  "autoSave live =
     (case current (imageHistory live) of
        None \<Rightarrow> (None, live)
      | Some cur \<Rightarrow>
          (case setItem (localStorage live) ''nanoedit-saved-image'' (JSON_stringify cur) of
             Inl e \<Rightarrow> (Some e, live)
           | Inr ls \<Rightarrow> (None, live\<lparr> localStorage := ls \<rparr>)))"

definition handlePromptChange :: "string \<Rightarrow> 'a editor \<Rightarrow> thrown option \<times> 'a editor" where
  "handlePromptChange newPrompt live =
     (let live1 = live\<lparr> prompt := newPrompt \<rparr> in
      case setItem (localStorage live1) ''nanoedit-saved-prompt'' newPrompt of
        Inl e \<Rightarrow> (Some e, live1)
      | Inr ls \<Rightarrow> (None, live1\<lparr> localStorage := ls \<rparr>))"

text \<open>
  The save effect of the superseded editor (lines 108 to 113) writes both keys, again
  with no \<^verbatim>\<open>try\<close>; a failure of the first write skips the second.
\<close>

definition save_superseded :: "ImageState editor \<Rightarrow> thrown option \<times> ImageState editor" where
  "save_superseded live =
     (case current (imageHistory live) of
        None \<Rightarrow> (None, live)
      | Some cur \<Rightarrow>
          (case setItem (localStorage live) SESSION_IMAGE_KEY (JSON_stringify cur) of
             Inl e \<Rightarrow> (Some e, live)
           | Inr ls \<Rightarrow>
               (case setItem ls SESSION_PROMPT_KEY (prompt live) of
                  Inl e \<Rightarrow> (Some e, live\<lparr> localStorage := ls \<rparr>)
                | Inr ls' \<Rightarrow> (None, live\<lparr> localStorage := ls' \<rparr>))))"

subsection \<open>Clearing the session\<close>

text \<open>
  The object the hook returns in a render (line 37 of the hook):
  \<^verbatim>\<open>{ current, original, push, undo, redo, canUndo, canRedo, reset }\<close>. Reading a
  property it does not have gives \<^verbatim>\<open>undefined\<close> (\<open>None\<close>).
\<close>

datatype 'a property =
    Version "'a option"
  | Flag bool
  | Callback "'a hist \<Rightarrow> 'a hist"
  | Callback_of_version "'a \<Rightarrow> 'a hist \<Rightarrow> 'a hist"

definition useImageHistory_returns :: "'a hist \<Rightarrow> (string \<times> 'a property) list" where
  "useImageHistory_returns snap =
     [(''current'', Version (current snap)),
      (''original'', Version (original snap)),
      (''push'', Callback_of_version (push snap)),
      (''undo'', Callback (undo snap)),
      (''redo'', Callback (redo snap)),
      (''canUndo'', Flag (canUndo snap)),
      (''canRedo'', Flag (canRedo snap)),
      (''reset'', Callback_of_version reset)]"

text \<open>
  \<^verbatim>\<open>handleClearSession\<close> of the canonical editor (lines 906 to 920). Its variable
  \<^verbatim>\<open>clear\<close> is destructured from the hook's object (line 714). The handler removes the
  two keys, then calls \<^verbatim>\<open>clear()\<close>: calling anything but a function throws a
  \<^verbatim>\<open>TypeError\<close>, and the statements after the call do not run.
\<close>

definition handleClearSession :: "'a editor \<Rightarrow> 'a editor \<Rightarrow> thrown option \<times> 'a editor" where
  "handleClearSession snap live =
     (let clear = map_of (useImageHistory_returns (imageHistory snap)) ''clear'';
          live1 = live\<lparr> localStorage :=
                    removeItem (removeItem (localStorage live) ''nanoedit-saved-image'')
                      ''nanoedit-saved-prompt'' \<rparr> in
      case clear of
        Some (Callback callback) \<Rightarrow>
          (None,
           resetAdjustments (resetView
             (live1\<lparr> imageHistory := callback (imageHistory live1), prompt := [],
                     error := None, suggestions := [], suggestionError := None,
                     speechRecognitionError := None \<rparr>)))
      | _ \<Rightarrow> (Some (TypeError ''clear is not a function''), live1))"

section \<open>The image transforms (src/unnamed/part_001, imported as utils/imageOptimizer)\<close>

text \<open>
  A file, the options handed to the compression library, and the platform the
  transforms call into: the library's \<^verbatim>\<open>imageCompression\<close> and
  \<^verbatim>\<open>getDataUrlFromFile\<close>, \<^verbatim>\<open>fetch\<close> followed by \<^verbatim>\<open>blob()\<close>, the image decoder and the
  canvas. Each asynchronous call gives its value or what it rejected with. The platform
  is a parameter of every transform.
\<close>

record js_file =
  file_name :: string
  file_type :: string
  file_bytes :: string

record options =
  maxSizeMB :: real
  maxWidthOrHeight :: "nat option"
  useWebWorker :: bool
  initialQuality :: real

record decoded_image =
  img_width :: nat
  img_height :: nat
  img_source :: string

record platform =
  imageCompression :: "js_file \<Rightarrow> options \<Rightarrow> thrown + js_file"
  getDataUrlFromFile :: "js_file \<Rightarrow> thrown + string"
  fetch_blob :: "string \<Rightarrow> thrown + string \<times> string"
  decode_image :: "string \<Rightarrow> string + decoded_image"
  canvas_has_context :: bool
  toDataURL :: "decoded_image \<Rightarrow> real \<Rightarrow> real \<Rightarrow> string \<Rightarrow> string"

text \<open>
  \<^verbatim>\<open>optimizeImage\<close> (lines 9 to 26): the outcome of the promise it returns.
\<close>

definition optimize_options :: options where
  "optimize_options =
     \<lparr> maxSizeMB = 1, maxWidthOrHeight = Some 1920, useWebWorker = True,
       initialQuality = 0.8 \<rparr>"

definition optimizeImage :: "platform \<Rightarrow> js_file \<Rightarrow> thrown + js_file" where
  "optimizeImage env f =
     (case imageCompression env f optimize_options of
        Inr compressedFile \<Rightarrow> Inr compressedFile
      | Inl err \<Rightarrow> Inr f)"

text \<open>\<^verbatim>\<open>dataURLtoFile\<close> (lines 34 to 38): a failed fetch rejects it.\<close>

definition dataURLtoFile :: "platform \<Rightarrow> string \<Rightarrow> string \<Rightarrow> thrown + js_file" where
  "dataURLtoFile env url filename =
     (case fetch_blob env url of
        Inl err \<Rightarrow> Inl err
      | Inr (blob_type, blob_bytes) \<Rightarrow>
          Inr \<lparr> file_name = filename, file_type = blob_type, file_bytes = blob_bytes \<rparr>)"

text \<open>
  \<^verbatim>\<open>compressImageForDownload\<close> (lines 47 to 72). The conversion to a file is awaited
  before the \<^verbatim>\<open>try\<close>; the compression and the conversion back are inside it.
\<close>

fun qualityOptions :: "OutputQuality \<Rightarrow> real \<times> real" where
  "qualityOptions low = (0.5, 0.6)"
| "qualityOptions medium = (1, 0.8)"
| "qualityOptions high = (5, 0.95)"

definition download_options :: "OutputQuality \<Rightarrow> options" where
  "download_options quality =
     \<lparr> maxSizeMB = fst (qualityOptions quality), maxWidthOrHeight = None,
       useWebWorker = True, initialQuality = snd (qualityOptions quality) \<rparr>"

definition source_name :: "string \<Rightarrow> string" where
  "source_name mime = ''source.'' @ or_default (js_split_1 (CHR ''/'') mime) ''png''"

definition compressImageForDownload ::
  "platform \<Rightarrow> string \<Rightarrow> string \<Rightarrow> OutputQuality \<Rightarrow> thrown + string" where
  "compressImageForDownload env url mime quality =
     (case dataURLtoFile env url (source_name mime) of
        Inl err \<Rightarrow> Inl err
      | Inr f \<Rightarrow>
          (case imageCompression env f (download_options quality) of
             Inl err \<Rightarrow> Inr url
           | Inr compressedFile \<Rightarrow>
               (case getDataUrlFromFile env compressedFile of
                  Inl err \<Rightarrow> Inr url
                | Inr compressedDataUrl \<Rightarrow> Inr compressedDataUrl)))"

text \<open>
  \<^verbatim>\<open>s.indexOf(c)\<close> and \<^verbatim>\<open>s.substring(a, b)\<close>: the index is \<open>-1\<close> when \<open>c\<close> does not
  occur; \<^verbatim>\<open>substring\<close> clamps both arguments to the string and swaps them when the
  first is the larger.
\<close>

definition indexOf :: "string \<Rightarrow> char \<Rightarrow> int" where
  "indexOf s c = (if c \<in> set s then int (length (takeWhile (\<lambda>x. x \<noteq> c) s)) else - 1)"

definition substring :: "string \<Rightarrow> int \<Rightarrow> int \<Rightarrow> string" where
  "substring s a b =
     (let n = int (length s);
          a' = min (max a 0) n;
          b' = min (max b 0) n;
          lo = min a' b';
          hi = max a' b'
      in take (nat (hi - lo)) (drop (nat lo) s))"

text \<open>
  \<^verbatim>\<open>applyVisualAdjustments\<close> (lines 81 to 117): the outcome of the promise, and the
  canvas operations performed on the way. With both percentages at 100 it resolves at
  once. Otherwise the image is decoded: \<^verbatim>\<open>onerror\<close> (with the text of its argument)
  rejects, and so does a canvas without a 2d context; else the image is drawn through
  the filter and the canvas is read back with the media type named in the data URL.
\<close>

datatype canvas_op = Set_filter real real | Draw_image

definition applyVisualAdjustments ::
  "platform \<Rightarrow> string \<Rightarrow> real \<Rightarrow> real \<Rightarrow> (thrown + string) \<times> canvas_op list" where
  "applyVisualAdjustments env url brightnessPct contrastPct =
     (if brightnessPct = 100 \<and> contrastPct = 100 then (Inr url, [])
      else case decode_image env url of
             Inl err \<Rightarrow> (Inl (Error (''Failed to load image for adjustments: '' @ err)), [])
           | Inr img \<Rightarrow>
               if \<not> canvas_has_context env
               then (Inl (Error ''Could not get canvas context''), [])
               else (let mime = substring url (indexOf url (CHR '':'') + 1)
                                  (indexOf url (CHR '';''))
                     in (Inr (toDataURL env img brightnessPct contrastPct mime),
                         [Set_filter brightnessPct contrastPct, Draw_image])))"

text \<open>
  Platforms for the examples below. On the first every call succeeds: the fetch of a
  PNG data URL gives its payload, compression keeps the first half of the bytes, and
  the canvas returns a data URL of the requested type. On the second the fetch of a
  data URL is refused (as under a content security policy that does not list
  \<^verbatim>\<open>data:\<close>), no image decodes and the compressor fails. The last two are the first
  with a failing compressor, and with a failing conversion back to a data URL.
\<close>

definition platform_ok :: platform where
  "platform_ok =
     \<lparr> imageCompression =
         (\<lambda>f opts. Inr (f\<lparr> file_bytes := take (length (file_bytes f) div 2) (file_bytes f) \<rparr>)),
       getDataUrlFromFile = (\<lambda>f. Inr (''data:'' @ file_type f @ '';base64,'' @ file_bytes f)),
       fetch_blob = (\<lambda>url. Inr (''image/png'', drop 22 url)),
       decode_image = (\<lambda>url. Inr \<lparr> img_width = 2, img_height = 2, img_source = url \<rparr>),
       canvas_has_context = True,
       toDataURL = (\<lambda>img b c mime. ''data:'' @ mime @ '';base64,filtered'') \<rparr>"

definition platform_failing :: platform where
  "platform_failing =
     \<lparr> imageCompression = (\<lambda>f opts. Inl (Error ''compression failed'')),
       getDataUrlFromFile = (\<lambda>f. Inl (Error ''read failed'')),
       fetch_blob = (\<lambda>url. Inl (TypeError ''Failed to fetch'')),
       decode_image = (\<lambda>url. Inl ''[object Event]''),
       canvas_has_context = True,
       toDataURL = (\<lambda>img b c mime. []) \<rparr>"

definition platform_compressor_fails :: platform where
  "platform_compressor_fails =
     platform_ok\<lparr> imageCompression := (\<lambda>f opts. Inl (Error ''compression failed'')) \<rparr>"

definition platform_reader_fails :: platform where
  "platform_reader_fails =
     platform_ok\<lparr> getDataUrlFromFile := (\<lambda>f. Inl (Error ''read failed'')) \<rparr>"

definition png_file :: "string \<Rightarrow> string \<Rightarrow> js_file" where
  "png_file name bytes = \<lparr> file_name = name, file_type = ''image/png'', file_bytes = bytes \<rparr>"

section \<open>Example sessions\<close>

text \<open>
  A PNG version with a given base64 payload, a storage with room and one without, and
  an editor with given versions, cursor, prompt text and storage.
\<close>

definition img :: "string \<Rightarrow> ImageState" where
  "img payload =
     \<lparr> dataUrl = ''data:image/png;base64,'' @ payload, mimeType = ''image/png'' \<rparr>"

definition roomy :: "(string \<times> string) list \<Rightarrow> storage" where
  "roomy kvs = \<lparr> items = kvs, quota = 5000000 \<rparr>"

definition full :: storage where
  "full = \<lparr> items = [], quota = 0 \<rparr>"

definition session :: "'a list \<Rightarrow> int \<Rightarrow> string \<Rightarrow> storage \<Rightarrow> 'a editor" where
  "session v c p ls =
     (mounted ls)\<lparr> imageHistory := \<lparr> history = v, currentIndex = c \<rparr>, prompt := p \<rparr>"

text \<open>The history \<open>[A, B, C]\<close> with the cursor on \<open>C\<close> and a prompt typed in.\<close>

definition inflight :: "ImageState editor" where
  "inflight = session [img ''A'', img ''B'', img ''C''] 2 ''add a hat'' (roomy [])"

text \<open>
  Two stored sessions, under the keys of both editors: an image entry without the
  field \<^verbatim>\<open>mimeType\<close>, and one cut off after its opening brace.
\<close>

definition stored_without_mimeType :: storage where
  \<open>stored_without_mimeType =
     roomy [(''nanoedit-saved-image'', ''{"dataUrl":"data:image/png;base64,AAAA"}''),
            (''nanoedit-saved-prompt'', ''add a hat''),
            (''nanoedit-session-image'', ''{"dataUrl":"data:image/png;base64,AAAA"}''),
            (''nanoedit-session-prompt'', ''add a hat'')]\<close>

definition stored_cut_off :: storage where
  \<open>stored_cut_off =
     roomy [(''nanoedit-saved-image'', ''{''),
            (''nanoedit-saved-prompt'', ''add a hat''),
            (''nanoedit-session-image'', ''{''),
            (''nanoedit-session-prompt'', ''add a hat'')]\<close>

text \<open>
  The value of \<^verbatim>\<open>JSON.parse\<close> at the two stored texts above: the object with the one
  field \<^verbatim>\<open>dataUrl\<close>, and the \<^verbatim>\<open>SyntaxError\<close> for the text that ends after its brace.
  The table has no other entry: at any other text it answers with an error that says
  so, and no example below reads it there.
\<close>

definition JSON_parse_examples :: "string \<Rightarrow> thrown + json" where
  \<open>JSON_parse_examples text =
     (if text = ''{"dataUrl":"data:image/png;base64,AAAA"}''
      then Inr (JObject [(''dataUrl'', JString ''data:image/png;base64,AAAA'')])
      else if text = ''{''
      then Inl (SyntaxError ''Unexpected end of JSON input'')
      else Inl (SyntaxError ''not one of the examples''))\<close>

section \<open>Properties of the history hook\<close>

lemma js_slice0_in_range:
  "0 \<le> c \<Longrightarrow> c < int (length v) \<Longrightarrow> js_slice0 v (c + 1) = take (nat c + 1) v"
  by (simp add: js_slice0_def Let_def nat_add_distrib)

lemma push_initialized: "initialized (push h s h)"
  by (simp add: initialized_def push_def Let_def)

lemma undo_initialized: "initialized h \<Longrightarrow> initialized (undo h h)"
  by (auto simp: initialized_def undo_def canUndo_def)

lemma redo_initialized: "initialized h \<Longrightarrow> initialized (redo h h)"
  by (auto simp: initialized_def redo_def canRedo_def)

lemma hist_step_initialized: "initialized h \<Longrightarrow> initialized (hist_step h x)"
  by (cases x) (simp_all add: push_initialized undo_initialized redo_initialized)

lemma run_ops_initialized: "initialized h \<Longrightarrow> initialized (run_ops h ops)"
  unfolding run_ops_def
  by (induction ops arbitrary: h) (simp_all add: hist_step_initialized)

text \<open>
  Claim C1. For a history with versions \<open>v\<close> and cursor \<open>c\<close>, \<open>0 \<le> c < length v\<close>, a
  push of \<open>s\<close> from the latest render leaves the versions \<open>v[0..c]\<close> (the first \<open>c + 1\<close>)
  followed by \<open>s\<close>, and the cursor on the last version. In particular the history
  \<open>[A, B, C]\<close> with cursor 2, after two undos (cursor 0, current \<open>A\<close>) and a push of \<open>D\<close>,
  is \<open>[A, D]\<close> with cursor 1 and \<open>canRedo\<close> false.
\<close>

theorem push_truncates_redo_tail:
  assumes "0 \<le> c" and "c < int (length v)"
  shows "push \<lparr>history = v, currentIndex = c\<rparr> s \<lparr>history = v, currentIndex = c\<rparr>
           = \<lparr>history = take (nat c + 1) v @ [s], currentIndex = int (length (take (nat c + 1) v @ [s])) - 1\<rparr>
         \<and> (let h0 = \<lparr>history = [A, B, C], currentIndex = 2\<rparr>;
                 h1 = undo h0 h0;
                 h2 = undo h1 h1;
                 h3 = push h2 D h2
             in currentIndex h2 = 0 \<and> current h2 = Some A
                \<and> h3 = \<lparr>history = [A, D], currentIndex = 1\<rparr> \<and> canRedo h3 = False)"
proof -
  have "js_slice0 v (c + 1) = take (nat c + 1) v"
    using assms by (rule js_slice0_in_range)
  then have general: "push \<lparr>history = v, currentIndex = c\<rparr> s \<lparr>history = v, currentIndex = c\<rparr>
      = \<lparr>history = take (nat c + 1) v @ [s], currentIndex = int (length (take (nat c + 1) v @ [s])) - 1\<rparr>"
    by (simp add: push_def Let_def)
  have scenario: "(let h0 = \<lparr>history = [A, B, C], currentIndex = 2\<rparr>;
                 h1 = undo h0 h0;
                 h2 = undo h1 h1;
                 h3 = push h2 D h2
             in currentIndex h2 = 0 \<and> current h2 = Some A
                \<and> h3 = \<lparr>history = [A, D], currentIndex = 1\<rparr> \<and> canRedo h3 = False)"
    by (simp add: Let_def undo_def canUndo_def push_def js_slice0_def current_def js_index_def
        canRedo_def)
  from general scenario show ?thesis by (rule conjI)
qed

theorem push_truncates_redo_tail_witness:
  "(0::int) \<le> 1 \<and> (1::int) < int (length [''A'', ''B'', ''C''])
   \<and> push \<lparr>history = [''A'', ''B'', ''C''], currentIndex = 1\<rparr> ''D''
          \<lparr>history = [''A'', ''B'', ''C''], currentIndex = 1\<rparr>
       = \<lparr>history = [''A'', ''B'', ''D''], currentIndex = 2\<rparr>"
  using push_truncates_redo_tail
          [where c = 1 and v = "[''A'', ''B'', ''C'']" and s = "''D''"
             and A = "''A''" and B = "''B''" and C = "''C''" and D = "''D''"]
  by simp

text \<open>
  Claim C3. After every sequence of push, undo and redo from an initialized history
  (each invoked from the latest render), the history is still initialized,
  \<open>canUndo\<close> is \<open>cursor > 0\<close> and \<open>canRedo\<close> is \<open>cursor < length - 1\<close>; undo with
  the cursor at 0 and redo with the cursor at \<open>length - 1\<close> return the state they were
  given, and inside the bounds they move the cursor by one and leave the versions alone.
  The callbacks are total functions into the state: they have no error result.
\<close>

theorem queries_and_clamping_after_ops:
  assumes "initialized h"
  shows "let h' = run_ops h ops in
           initialized h'
         \<and> canUndo h' = (currentIndex h' > 0)
         \<and> canRedo h' = (currentIndex h' < int (length (history h')) - 1)
         \<and> (currentIndex h' = 0 \<longrightarrow> undo h' h' = h')
         \<and> (currentIndex h' = int (length (history h')) - 1 \<longrightarrow> redo h' h' = h')
         \<and> (currentIndex h' > 0 \<longrightarrow>
              undo h' h' = h'\<lparr>currentIndex := currentIndex h' - 1\<rparr>)
         \<and> (currentIndex h' < int (length (history h')) - 1 \<longrightarrow>
              redo h' h' = h'\<lparr>currentIndex := currentIndex h' + 1\<rparr>)"
proof -
  have "initialized (run_ops h ops)"
    using assms by (rule run_ops_initialized)
  then show ?thesis
    by (simp add: Let_def canUndo_def canRedo_def undo_def redo_def)
qed

theorem queries_and_clamping_after_ops_witness:
  "initialized \<lparr>history = [''A'', ''B'', ''C''], currentIndex = 2\<rparr>
   \<and> run_ops \<lparr>history = [''A'', ''B'', ''C''], currentIndex = 2\<rparr>
        [Undo, Undo, Undo, Push ''D'', Redo, Undo, Undo, Push ''E'', Undo]
       = \<lparr>history = [''A'', ''E''], currentIndex = 0\<rparr>
   \<and> undo \<lparr>history = [''A'', ''E''], currentIndex = 0\<rparr>
          \<lparr>history = [''A'', ''E''], currentIndex = 0\<rparr>
       = \<lparr>history = [''A'', ''E''], currentIndex = 0\<rparr>
   \<and> redo \<lparr>history = [''A'', ''E''], currentIndex = 0\<rparr>
          \<lparr>history = [''A'', ''E''], currentIndex = 0\<rparr>
       = \<lparr>history = [''A'', ''E''], currentIndex = 1\<rparr>
   \<and> run_ops \<lparr>history = [''A'', ''B'', ''C''], currentIndex = 2\<rparr> [Undo, Push ''D'', Redo]
       = \<lparr>history = [''A'', ''B'', ''D''], currentIndex = 2\<rparr>
   \<and> redo \<lparr>history = [''A'', ''B'', ''D''], currentIndex = 2\<rparr>
          \<lparr>history = [''A'', ''B'', ''D''], currentIndex = 2\<rparr>
       = \<lparr>history = [''A'', ''B'', ''D''], currentIndex = 2\<rparr>"
  using queries_and_clamping_after_ops
          [of "\<lparr>history = [''A'', ''B'', ''C''], currentIndex = 2\<rparr>"
              "[Undo, Undo, Undo, Push ''D'', Redo, Undo, Undo, Push ''E'', Undo]"]
        queries_and_clamping_after_ops
          [of "\<lparr>history = [''A'', ''B'', ''C''], currentIndex = 2\<rparr>"
              "[Undo, Push ''D'', Redo]"]
  by (simp add: initialized_def run_ops_def undo_def redo_def canUndo_def canRedo_def
      push_def js_slice0_def Let_def)

text \<open>
  Claim C10. On the empty history (the state of the hook initialized with no image,
  cursor \<open>-1\<close>) \<open>current\<close> and \<open>original\<close> are absent, \<open>canUndo\<close> and \<open>canRedo\<close> are
  false, undo and redo change nothing, and a push of \<open>s\<close> gives the history \<open>[s]\<close>
  with cursor 0, which is initialized and has \<open>s\<close> as its current version.
\<close>

theorem empty_history_total:
  "useImageHistory None = \<lparr>history = [], currentIndex = - 1\<rparr>
   \<and> current (useImageHistory None) = None
   \<and> original (useImageHistory None) = None
   \<and> canUndo (useImageHistory None) = False
   \<and> canRedo (useImageHistory None) = False
   \<and> undo (useImageHistory None) (useImageHistory None) = useImageHistory None
   \<and> redo (useImageHistory None) (useImageHistory None) = useImageHistory None
   \<and> push (useImageHistory None) s (useImageHistory None) = \<lparr>history = [s], currentIndex = 0\<rparr>
   \<and> initialized (push (useImageHistory None) s (useImageHistory None))
   \<and> current (push (useImageHistory None) s (useImageHistory None)) = Some s"
  by (simp add: useImageHistory_def current_def original_def js_index_def canUndo_def
      canRedo_def undo_def redo_def push_def js_slice0_def initialized_def Let_def)

section \<open>Properties of the editor's submit and clear handlers\<close>

lemma match_data_mime_D: "match_data_mime ''data:image/png;base64,D'' = Some ''image/png''"
  by (simp add: match_data_mime.simps greedy_until.simps starts_with_def line_terminator_def)

lemma new_version_D:
  "\<lparr> dataUrl = ''data:image/png;base64,D'',
     mimeType = or_default (match_data_mime ''data:image/png;base64,D'') ''image/png'' \<rparr> = img ''D''"
  unfolding match_data_mime_D by (simp add: or_default_def img_def)

lemma inflight_hist:
  "imageHistory inflight = \<lparr> history = [img ''A'', img ''B'', img ''C''], currentIndex = 2 \<rparr>"
  by (simp add: inflight_def session_def)

lemma inflight_fields: "prompt inflight = ''add a hat'' \<and> isLoading inflight = False"
  by (simp add: inflight_def session_def mounted_def)

lemma inflight_current: "current (imageHistory inflight) = Some (img ''C'')"
  by (simp add: inflight_hist current_def js_index_def)

lemma settle_history:
  "imageHistory (handleSubmit_settle snap (Inr url) live)
     = push (imageHistory snap)
         \<lparr> dataUrl = url, mimeType = or_default (match_data_mime url) ''image/png'' \<rparr>
         (imageHistory snap)
   \<and> imageHistory (handlePromptSubmit_settle snap (Inr url) live)
     = push (imageHistory snap)
         \<lparr> dataUrl = url, mimeType = or_default (match_data_mime url) ''image/png'' \<rparr>
         (imageHistory snap)"
  by (simp add: handleSubmit_settle_def handlePromptSubmit_settle_def push_def Let_def
      resetAdjustments_def)

lemma push_ABC_2: "push \<lparr> history = [a, b, c], currentIndex = 2 \<rparr> d h
    = h\<lparr> history := [a, b, c, d], currentIndex := 3 \<rparr>"
  by (simp add: push_def js_slice0_def Let_def)

lemma getItem_removeItem_same: "getItem (removeItem ls k) k = None"
  by (simp add: getItem_def removeItem_def AList.delete_conv')

lemma getItem_removeItem_other: "k' \<noteq> k \<Longrightarrow> getItem (removeItem ls k) k' = getItem ls k'"
  by (simp add: getItem_def removeItem_def AList.delete_conv')

lemma getItem_setItem: "setItem ls k v = Inr ls' \<Longrightarrow> getItem ls' k = Some v"
  by (auto simp: setItem_def getItem_def Let_def AList.update_conv' split: if_splits)

lemma start_guard_closed:
  "current (imageHistory st) = None \<or> prompt st = [] \<or> isLoading st
     \<Longrightarrow> handleSubmit_start st live = (None, live)"
  by (auto simp: handleSubmit_start_def split: option.splits)

lemma start_guard_open:
  "current (imageHistory st) \<noteq> None \<Longrightarrow> prompt st \<noteq> [] \<Longrightarrow> \<not> isLoading st
     \<Longrightarrow> fst (handleSubmit_start st live) \<noteq> None
         \<and> snd (handleSubmit_start st live)
             = live\<lparr> isLoading := True, loadingMessage := ''Applying AI edit...'', error := None \<rparr>"
  by (auto simp: handleSubmit_start_def split: option.splits)

text \<open>
  Claim C6. A submit with no current image, with an empty prompt or while loading
  returns at once and changes nothing. Otherwise a request is sent and the editor is
  loading, with the history as it was. When the collaborator succeeds, the new version
  is pushed (from the history of the submitting render) and the prompt field is
  cleared. When it fails with an \<^verbatim>\<open>Error\<close>, which is all the collaborator throws, the
  error slot holds its message; after any failure the history and the prompt are what
  they were when the failure arrived. Either way the editor is no longer loading.
\<close>

theorem handleSubmit_guard_success_failure:
  "(current (imageHistory st) = None \<or> prompt st = [] \<or> isLoading st
      \<longrightarrow> handleSubmit_start st st = (None, st))
   \<and> (current (imageHistory st) \<noteq> None \<and> prompt st \<noteq> [] \<and> \<not> isLoading st
      \<longrightarrow> fst (handleSubmit_start st st) \<noteq> None
          \<and> imageHistory (snd (handleSubmit_start st st)) = imageHistory st
          \<and> isLoading (snd (handleSubmit_start st st)))
   \<and> imageHistory (handleSubmit_settle st (Inr url) live)
        = push (imageHistory st)
            \<lparr> dataUrl = url, mimeType = or_default (match_data_mime url) ''image/png'' \<rparr>
            (imageHistory st)
   \<and> prompt (handleSubmit_settle st (Inr url) live) = []
   \<and> error (handleSubmit_settle st (Inl (Error msg)) live) = Some msg
   \<and> imageHistory (handleSubmit_settle st (Inl err) live) = imageHistory live
   \<and> prompt (handleSubmit_settle st (Inl err) live) = prompt live
   \<and> isLoading (handleSubmit_settle st outcome live) = False"
proof -
  have closed: "current (imageHistory st) = None \<or> prompt st = [] \<or> isLoading st
      \<longrightarrow> handleSubmit_start st st = (None, st)"
    using start_guard_closed [of st st] by blast
  have opened: "current (imageHistory st) \<noteq> None \<and> prompt st \<noteq> [] \<and> \<not> isLoading st
      \<longrightarrow> fst (handleSubmit_start st st) \<noteq> None
          \<and> imageHistory (snd (handleSubmit_start st st)) = imageHistory st
          \<and> isLoading (snd (handleSubmit_start st st))"
    using start_guard_open [of st st] by simp
  have pushed: "imageHistory (handleSubmit_settle st (Inr url) live)
        = push (imageHistory st)
            \<lparr> dataUrl = url, mimeType = or_default (match_data_mime url) ''image/png'' \<rparr>
            (imageHistory st)"
    using settle_history [of st url live] by simp
  have cleared: "prompt (handleSubmit_settle st (Inr url) live) = []"
    by (simp add: handleSubmit_settle_def Let_def resetAdjustments_def)
  have failed: "error (handleSubmit_settle st (Inl (Error msg)) live) = Some msg
      \<and> imageHistory (handleSubmit_settle st (Inl err) live) = imageHistory live
      \<and> prompt (handleSubmit_settle st (Inl err) live) = prompt live"
    by (simp add: handleSubmit_settle_def Let_def)
  have idle: "isLoading (handleSubmit_settle st outcome live) = False"
    by (simp add: handleSubmit_settle_def Let_def)
  from closed opened pushed cleared failed idle show ?thesis by blast
qed

text \<open>
  Claim C6 at concrete inputs: a submit without an image, and a submit on \<open>[A, B, C]\<close>
  that succeeds with \<open>D\<close> or fails with a network error.
\<close>

theorem handleSubmit_guard_success_failure_witness:
  "current (imageHistory (session [] (- 1) ''add a hat'' (roomy []) :: ImageState editor)) = None
   \<and> handleSubmit_start (session [] (- 1) ''add a hat'' (roomy []))
        (session [] (- 1) ''add a hat'' (roomy []))
       = (None, session [] (- 1) ''add a hat'' (roomy []))
   \<and> current (imageHistory inflight) \<noteq> None \<and> prompt inflight \<noteq> [] \<and> \<not> isLoading inflight
   \<and> fst (handleSubmit_start inflight inflight) \<noteq> None
   \<and> imageHistory (handleSubmit_settle inflight (Inr ''data:image/png;base64,D'')
        (snd (handleSubmit_start inflight inflight)))
       = \<lparr> history = [img ''A'', img ''B'', img ''C'', img ''D''], currentIndex = 3 \<rparr>
   \<and> error (handleSubmit_settle inflight (Inl (Error ''A network error occurred.''))
        (snd (handleSubmit_start inflight inflight))) = Some ''A network error occurred.''
   \<and> imageHistory (handleSubmit_settle inflight (Inl (Error ''A network error occurred.''))
        (snd (handleSubmit_start inflight inflight)))
       = \<lparr> history = [img ''A'', img ''B'', img ''C''], currentIndex = 2 \<rparr>"
proof -
  have no_image:
    "current (imageHistory (session [] (- 1) ''add a hat'' (roomy []) :: ImageState editor)) = None"
    by (simp add: session_def current_def js_index_def)
  have ready: "current (imageHistory inflight) \<noteq> None \<and> prompt inflight \<noteq> [] \<and> \<not> isLoading inflight"
    by (simp add: inflight_current inflight_fields)
  show ?thesis
    using no_image ready
      handleSubmit_guard_success_failure
        [of "session [] (- 1) ''add a hat'' (roomy [])" "''data:image/png;base64,D''"
            "session [] (- 1) ''add a hat'' (roomy [])"]
      handleSubmit_guard_success_failure
        [of inflight "''data:image/png;base64,D''"
            "snd (handleSubmit_start inflight inflight)" "''A network error occurred.''"
            "Error ''A network error occurred.''"]
    by (simp add: new_version_D inflight_hist push_ABC_2)
qed

text \<open>
  Claim C2, as amended. When a request was submitted at some cursor position and the
  cursor has moved while it was in flight, the push performed when the request succeeds
  truncates from, and appends after, the cursor position at the time the request was
  issued: whatever the history and the cursor are at completion time (\<open>live\<close>), the
  history becomes the versions of the submitting render up to its cursor, followed by
  the new version, with the cursor on it. This holds for the submit handlers of both
  editors.
\<close>

theorem inflight_push_uses_submit_time_history:
  "imageHistory (handleSubmit_settle snap (Inr url) live)
     = \<lparr> history = js_slice0 (history (imageHistory snap)) (currentIndex (imageHistory snap) + 1)
                     @ [\<lparr> dataUrl = url, mimeType = or_default (match_data_mime url) ''image/png'' \<rparr>],
         currentIndex = int (length (js_slice0 (history (imageHistory snap))
                                       (currentIndex (imageHistory snap) + 1))) \<rparr>
   \<and> imageHistory (handlePromptSubmit_settle snap (Inr url) live)
     = \<lparr> history = js_slice0 (history (imageHistory snap)) (currentIndex (imageHistory snap) + 1)
                     @ [\<lparr> dataUrl = url, mimeType = or_default (match_data_mime url) ''image/png'' \<rparr>],
         currentIndex = int (length (js_slice0 (history (imageHistory snap))
                                       (currentIndex (imageHistory snap) + 1))) \<rparr>"
  by (simp add: settle_history push_def Let_def)

text \<open>
  Claim C2 as stated fails. In the superseded editor, whose undo button stays enabled
  while loading, submit on \<open>[A, B, C]\<close> with the cursor on \<open>C\<close>, press undo while the
  request is in flight (the cursor is now 1), and let the request succeed with \<open>D\<close>:
  the history is \<open>[A, B, C, D]\<close> with cursor 3, not the \<open>[A, B, D]\<close> with cursor 2 that
  a push from the cursor at completion time gives. The canonical handler, run through
  the same steps, gives the same history.
\<close>

theorem inflight_undo_counterexample:
  "fst (handlePromptSubmit_start inflight (prompt inflight) inflight) \<noteq> None
   \<and> undo_disabled_superseded
        (snd (handlePromptSubmit_start inflight (prompt inflight) inflight)) = False
   \<and> imageHistory (click_undo (snd (handlePromptSubmit_start inflight (prompt inflight) inflight)))
       = \<lparr> history = [img ''A'', img ''B'', img ''C''], currentIndex = 1 \<rparr>
   \<and> imageHistory (handlePromptSubmit_settle inflight (Inr ''data:image/png;base64,D'')
        (click_undo (snd (handlePromptSubmit_start inflight (prompt inflight) inflight))))
       = \<lparr> history = [img ''A'', img ''B'', img ''C'', img ''D''], currentIndex = 3 \<rparr>
   \<and> imageHistory (click_undo (snd (handleSubmit_start inflight inflight)))
       = \<lparr> history = [img ''A'', img ''B'', img ''C''], currentIndex = 1 \<rparr>
   \<and> imageHistory (handleSubmit_settle inflight (Inr ''data:image/png;base64,D'')
        (click_undo (snd (handleSubmit_start inflight inflight))))
       = \<lparr> history = [img ''A'', img ''B'', img ''C'', img ''D''], currentIndex = 3 \<rparr>
   \<and> push \<lparr> history = [img ''A'', img ''B'', img ''C''], currentIndex = 1 \<rparr> (img ''D'')
          \<lparr> history = [img ''A'', img ''B'', img ''C''], currentIndex = 1 \<rparr>
       = \<lparr> history = [img ''A'', img ''B'', img ''D''], currentIndex = 2 \<rparr>"
proof -
  have started: "imageHistory (snd (handleSubmit_start inflight inflight)) = imageHistory inflight
      \<and> imageHistory (snd (handlePromptSubmit_start inflight (prompt inflight) inflight))
          = imageHistory inflight
      \<and> fst (handlePromptSubmit_start inflight (prompt inflight) inflight) \<noteq> None"
    by (simp add: handleSubmit_start_def handlePromptSubmit_start_def inflight_current
        inflight_fields)
  have at_cursor_1: "push \<lparr> history = [a, b, c], currentIndex = 1 \<rparr> d h
      = h\<lparr> history := [a, b, d], currentIndex := 2 \<rparr>" for a b c d :: ImageState and h
    by (simp add: push_def js_slice0_def Let_def)
  show ?thesis
    by (simp add: settle_history new_version_D started inflight_hist push_ABC_2 at_cursor_1
        click_undo_def undo_def canUndo_def undo_disabled_superseded_def)
qed

text \<open>
  Claim C5. The hook's object has no property \<^verbatim>\<open>clear\<close>, so the canonical editor's
  \<^verbatim>\<open>handleClearSession\<close> throws a \<^verbatim>\<open>TypeError\<close> once it has removed the two keys, and
  the history is what it was: after a clear on the history \<open>[X]\<close> the current version
  is still \<open>X\<close>.
\<close>

theorem handleClearSession_throws:
  "map_of (useImageHistory_returns (imageHistory st)) ''clear'' = None
   \<and> handleClearSession st live
       = (Some (TypeError ''clear is not a function''),
          live\<lparr> localStorage :=
                  removeItem (removeItem (localStorage live) ''nanoedit-saved-image'')
                    ''nanoedit-saved-prompt'' \<rparr>)
   \<and> imageHistory (snd (handleClearSession st live)) = imageHistory live
   \<and> current (imageHistory (snd (handleClearSession (session [img ''X''] 0 [] (roomy []))
                                   (session [img ''X''] 0 [] (roomy []))))) = Some (img ''X'')"
proof -
  have undefined: "map_of (useImageHistory_returns (imageHistory st)) ''clear'' = None"
    by (simp add: useImageHistory_returns_def)
  then have thrown: "handleClearSession st live
       = (Some (TypeError ''clear is not a function''),
          live\<lparr> localStorage :=
                  removeItem (removeItem (localStorage live) ''nanoedit-saved-image'')
                    ''nanoedit-saved-prompt'' \<rparr>)"
    by (simp add: handleClearSession_def Let_def)
  have "map_of (useImageHistory_returns
                 (imageHistory (session [img ''X''] 0 [] (roomy []) :: ImageState editor))) ''clear'' = None"
    by (simp add: useImageHistory_returns_def)
  then have example: "current (imageHistory (snd (handleClearSession (session [img ''X''] 0 [] (roomy []))
                                   (session [img ''X''] 0 [] (roomy []))))) = Some (img ''X'')"
    by (simp add: handleClearSession_def Let_def session_def current_def js_index_def)
  from undefined thrown example show ?thesis by simp
qed

section \<open>Properties of session persistence\<close>

lemma load_parse_error:
  assumes "truthy_item (getItem ls ''nanoedit-saved-image'')"
    and "JSON_parse (the (getItem ls ''nanoedit-saved-image'')) = Inl e"
  shows "load JSON_parse (mounted ls)
           = (mounted ls)\<lparr> localStorage :=
                  removeItem (removeItem ls ''nanoedit-saved-image'') ''nanoedit-saved-prompt'' \<rparr>"
  using assms by (simp add: load_def load_try_def Let_def mounted_def)

lemma load_superseded_parse_error:
  assumes "truthy_item (getItem ls SESSION_IMAGE_KEY)"
    and "JSON_parse (the (getItem ls SESSION_IMAGE_KEY)) = Inl e"
  shows "load_superseded JSON_parse (mounted ls)
           = (mounted ls)\<lparr> localStorage :=
                  removeItem (removeItem ls SESSION_IMAGE_KEY) SESSION_PROMPT_KEY \<rparr>"
  using assms by (simp add: load_superseded_def load_superseded_try_def Let_def mounted_def)

lemma load_superseded_not_accepted:
  assumes "truthy_item (getItem ls SESSION_IMAGE_KEY)"
    and "JSON_parse (the (getItem ls SESSION_IMAGE_KEY)) = Inr v"
    and "\<not> accepted v"
  shows "imageHistory (load_superseded JSON_parse (mounted ls)) = useImageHistory None
         \<and> localStorage (load_superseded JSON_parse (mounted ls)) = ls"
  using assms by (simp add: load_superseded_def load_superseded_try_def Let_def mounted_def)

lemma load_superseded_nothing_stored:
  assumes "\<not> truthy_item (getItem ls SESSION_IMAGE_KEY)"
  shows "imageHistory (load_superseded JSON_parse (mounted ls)) = useImageHistory None
         \<and> localStorage (load_superseded JSON_parse (mounted ls)) = ls"
  using assms by (simp add: load_superseded_def load_superseded_try_def Let_def mounted_def)

lemma load_superseded_rejected:
  assumes "JSON_parse (the (getItem ls SESSION_IMAGE_KEY)) = Inr v" and "\<not> accepted v"
  shows "imageHistory (load_superseded JSON_parse (mounted ls)) = useImageHistory None
         \<and> localStorage (load_superseded JSON_parse (mounted ls)) = ls"
proof (cases "truthy_item (getItem ls SESSION_IMAGE_KEY)")
  case True
  then show ?thesis using assms by (rule load_superseded_not_accepted)
next
  case False
  then show ?thesis by (rule load_superseded_nothing_stored)
qed

lemma mounted_empty:
  "history (imageHistory (mounted ls)) = [] \<and> current (imageHistory (mounted ls)) = None"
  by (simp add: mounted_def useImageHistory_def current_def js_index_def)

lemma both_keys_removed:
  "k2 \<noteq> k1 \<Longrightarrow> getItem (removeItem (removeItem ls k1) k2) k1 = None
     \<and> getItem (removeItem (removeItem ls k1) k2) k2 = None"
  by (simp add: getItem_removeItem_same getItem_removeItem_other)

lemma cut_off_items:
  \<open>getItem stored_cut_off ''nanoedit-saved-image'' = Some ''{''
   \<and> getItem stored_cut_off SESSION_IMAGE_KEY = Some ''{''
   \<and> JSON_parse_examples ''{'' = Inl (SyntaxError ''Unexpected end of JSON input'')\<close>
  by (simp add: stored_cut_off_def roomy_def getItem_def SESSION_IMAGE_KEY_def
      JSON_parse_examples_def)

lemma without_mimeType_items:
  \<open>getItem stored_without_mimeType ''nanoedit-saved-image''
      = Some ''{"dataUrl":"data:image/png;base64,AAAA"}''
   \<and> getItem stored_without_mimeType ''nanoedit-saved-prompt'' = Some ''add a hat''
   \<and> getItem stored_without_mimeType SESSION_IMAGE_KEY
      = Some ''{"dataUrl":"data:image/png;base64,AAAA"}''
   \<and> getItem stored_without_mimeType SESSION_PROMPT_KEY = Some ''add a hat''
   \<and> JSON_parse_examples ''{"dataUrl":"data:image/png;base64,AAAA"}''
      = Inr (JObject [(''dataUrl'', JString ''data:image/png;base64,AAAA'')])\<close>
  by (simp add: stored_without_mimeType_def roomy_def getItem_def SESSION_IMAGE_KEY_def
      SESSION_PROMPT_KEY_def JSON_parse_examples_def)

lemma not_accepted_without_mimeType:
  "\<not> accepted (JObject [(''dataUrl'', JString ''data:image/png;base64,AAAA'')])"
  by (simp add: accepted_def)

text \<open>
  Claim C4, as amended. For every stored image entry that is not empty and whose
  parsing throws, the load (of either editor) leaves the history of the mounted editor
  empty, with no current version, and removes both storage keys. The load that checks
  the two string fields before accepting the parsed entry, the superseded editor's,
  leaves the history empty and the storage as it was for an entry that parses and is
  not accepted.
\<close>

theorem load_discards_unparseable_entry:
  "(truthy_item (getItem ls ''nanoedit-saved-image'')
      \<and> JSON_parse (the (getItem ls ''nanoedit-saved-image'')) = Inl e
     \<longrightarrow> history (imageHistory (load JSON_parse (mounted ls))) = []
         \<and> current (imageHistory (load JSON_parse (mounted ls))) = None
         \<and> getItem (localStorage (load JSON_parse (mounted ls))) ''nanoedit-saved-image'' = None
         \<and> getItem (localStorage (load JSON_parse (mounted ls))) ''nanoedit-saved-prompt'' = None)
   \<and> (truthy_item (getItem ls SESSION_IMAGE_KEY)
      \<and> JSON_parse (the (getItem ls SESSION_IMAGE_KEY)) = Inl e
     \<longrightarrow> history (imageHistory (load_superseded JSON_parse (mounted ls))) = []
         \<and> current (imageHistory (load_superseded JSON_parse (mounted ls))) = None
         \<and> getItem (localStorage (load_superseded JSON_parse (mounted ls))) SESSION_IMAGE_KEY = None
         \<and> getItem (localStorage (load_superseded JSON_parse (mounted ls))) SESSION_PROMPT_KEY = None)
   \<and> (JSON_parse (the (getItem ls SESSION_IMAGE_KEY)) = Inr v \<and> \<not> accepted v
     \<longrightarrow> history (imageHistory (load_superseded JSON_parse (mounted ls))) = []
         \<and> current (imageHistory (load_superseded JSON_parse (mounted ls))) = None
         \<and> localStorage (load_superseded JSON_parse (mounted ls)) = ls)"
proof (intro conjI impI)
  assume a: "truthy_item (getItem ls ''nanoedit-saved-image'')
      \<and> JSON_parse (the (getItem ls ''nanoedit-saved-image'')) = Inl e"
  then have eq: "load JSON_parse (mounted ls)
           = (mounted ls)\<lparr> localStorage :=
                  removeItem (removeItem ls ''nanoedit-saved-image'') ''nanoedit-saved-prompt'' \<rparr>"
    by (simp add: load_parse_error)
  show "history (imageHistory (load JSON_parse (mounted ls))) = []"
    and "current (imageHistory (load JSON_parse (mounted ls))) = None"
    by (simp_all add: eq mounted_empty)
  show "getItem (localStorage (load JSON_parse (mounted ls))) ''nanoedit-saved-image'' = None"
    and "getItem (localStorage (load JSON_parse (mounted ls))) ''nanoedit-saved-prompt'' = None"
    by (simp_all add: eq both_keys_removed)
next
  assume a: "truthy_item (getItem ls SESSION_IMAGE_KEY)
      \<and> JSON_parse (the (getItem ls SESSION_IMAGE_KEY)) = Inl e"
  then have eq: "load_superseded JSON_parse (mounted ls)
           = (mounted ls)\<lparr> localStorage :=
                  removeItem (removeItem ls SESSION_IMAGE_KEY) SESSION_PROMPT_KEY \<rparr>"
    by (simp add: load_superseded_parse_error)
  have ne: "SESSION_PROMPT_KEY \<noteq> SESSION_IMAGE_KEY"
    by (simp add: SESSION_PROMPT_KEY_def SESSION_IMAGE_KEY_def)
  show "history (imageHistory (load_superseded JSON_parse (mounted ls))) = []"
    and "current (imageHistory (load_superseded JSON_parse (mounted ls))) = None"
    by (simp_all add: eq mounted_empty)
  show "getItem (localStorage (load_superseded JSON_parse (mounted ls))) SESSION_IMAGE_KEY = None"
    and "getItem (localStorage (load_superseded JSON_parse (mounted ls))) SESSION_PROMPT_KEY = None"
    using both_keys_removed [OF ne, of ls] by (simp_all add: eq)
next
  assume a: "JSON_parse (the (getItem ls SESSION_IMAGE_KEY)) = Inr v \<and> \<not> accepted v"
  then have eq: "imageHistory (load_superseded JSON_parse (mounted ls)) = useImageHistory None
         \<and> localStorage (load_superseded JSON_parse (mounted ls)) = ls"
    by (simp add: load_superseded_rejected)
  show "history (imageHistory (load_superseded JSON_parse (mounted ls))) = []"
    and "current (imageHistory (load_superseded JSON_parse (mounted ls))) = None"
    and "localStorage (load_superseded JSON_parse (mounted ls)) = ls"
    by (simp_all add: eq useImageHistory_def current_def js_index_def)
qed

text \<open>
  Claim C4 as amended, at concrete inputs: a stored entry cut off after its brace, in
  both editors, and an entry without \<^verbatim>\<open>mimeType\<close> in the superseded editor.
\<close>

theorem load_discards_unparseable_entry_witness:
  \<open>truthy_item (getItem stored_cut_off ''nanoedit-saved-image'')
   \<and> JSON_parse_examples (the (getItem stored_cut_off ''nanoedit-saved-image''))
       = Inl (SyntaxError ''Unexpected end of JSON input'')
   \<and> history (imageHistory (load JSON_parse_examples (mounted stored_cut_off))) = []
   \<and> getItem (localStorage (load JSON_parse_examples (mounted stored_cut_off)))
        ''nanoedit-saved-image'' = None
   \<and> getItem (localStorage (load JSON_parse_examples (mounted stored_cut_off)))
        ''nanoedit-saved-prompt'' = None
   \<and> truthy_item (getItem stored_cut_off SESSION_IMAGE_KEY)
   \<and> getItem (localStorage (load_superseded JSON_parse_examples (mounted stored_cut_off)))
        SESSION_IMAGE_KEY = None
   \<and> getItem (localStorage (load_superseded JSON_parse_examples (mounted stored_cut_off)))
        SESSION_PROMPT_KEY = None
   \<and> truthy_item (getItem stored_without_mimeType SESSION_IMAGE_KEY)
   \<and> \<not> accepted (JObject [(''dataUrl'', JString ''data:image/png;base64,AAAA'')])
   \<and> history (imageHistory (load_superseded JSON_parse_examples (mounted stored_without_mimeType))) = []
   \<and> localStorage (load_superseded JSON_parse_examples (mounted stored_without_mimeType))
       = stored_without_mimeType\<close>
  using load_discards_unparseable_entry
          [of stored_cut_off JSON_parse_examples "SyntaxError ''Unexpected end of JSON input''"
              "JNull"]
        load_discards_unparseable_entry
          [of stored_without_mimeType JSON_parse_examples "SyntaxError ''Unexpected end of JSON input''"
              "JObject [(''dataUrl'', JString ''data:image/png;base64,AAAA'')]"]
  by (simp add: cut_off_items without_mimeType_items not_accepted_without_mimeType
      truthy_item_def)

text \<open>
  Claim C4 as stated fails on a stored image entry without the field \<^verbatim>\<open>mimeType\<close>. The
  canonical load resets the parsed object into the history, so a current version
  exists, and keeps both keys. The superseded load leaves the history empty, and keeps
  both keys too.
\<close>

theorem load_without_mimeType_counterexample:
  \<open>history (imageHistory (load JSON_parse_examples (mounted stored_without_mimeType)))
     = [JObject [(''dataUrl'', JString ''data:image/png;base64,AAAA'')]]
   \<and> current (imageHistory (load JSON_parse_examples (mounted stored_without_mimeType)))
     = Some (JObject [(''dataUrl'', JString ''data:image/png;base64,AAAA'')])
   \<and> getItem (localStorage (load JSON_parse_examples (mounted stored_without_mimeType)))
        ''nanoedit-saved-image'' = Some ''{"dataUrl":"data:image/png;base64,AAAA"}''
   \<and> getItem (localStorage (load JSON_parse_examples (mounted stored_without_mimeType)))
        ''nanoedit-saved-prompt'' = Some ''add a hat''
   \<and> current (imageHistory (load_superseded JSON_parse_examples (mounted stored_without_mimeType)))
     = None
   \<and> getItem (localStorage (load_superseded JSON_parse_examples (mounted stored_without_mimeType)))
        SESSION_IMAGE_KEY = Some ''{"dataUrl":"data:image/png;base64,AAAA"}''
   \<and> getItem (localStorage (load_superseded JSON_parse_examples (mounted stored_without_mimeType)))
        SESSION_PROMPT_KEY = Some ''add a hat''\<close>
  by (simp add: load_def load_try_def load_superseded_def load_superseded_try_def Let_def
      mounted_def without_mimeType_items not_accepted_without_mimeType truthy_item_def
      reset_def current_def js_index_def useImageHistory_def)

lemma setItem_full:
  "setItem full k v
     = (if k = [] \<and> v = [] then Inr (full\<lparr> items := [(k, v)] \<rparr>)
        else Inl (QuotaExceededError ''The quota has been exceeded.''))"
  by (auto simp: setItem_def full_def used_def Let_def)

lemma setItem_roomy_empty:
  "length k + length v \<le> 5000000 \<Longrightarrow> setItem (roomy []) k v = Inr (roomy [(k, v)])"
  by (simp add: setItem_def roomy_def used_def Let_def)

lemma json_escape_length: "length (json_escape c) \<le> 6"
  by (simp add: json_escape_def)

lemma json_quote_length: "length (json_quote s) \<le> 6 * length s + 2"
proof -
  have "length (concat (map json_escape s)) \<le> 6 * length s"
  proof (induction s)
    case Nil
    show ?case by simp
  next
    case (Cons c cs)
    then show ?case using json_escape_length [of c] by simp
  qed
  then show ?thesis by (simp add: json_quote_def)
qed

lemma JSON_stringify_length:
  "length (JSON_stringify i) \<le> 6 * length (dataUrl i) + 6 * length (mimeType i) + 28"
  using json_quote_length [of "dataUrl i"] json_quote_length [of "mimeType i"]
  by (simp add: JSON_stringify_def)

text \<open>
  Claim C7, as amended. A save is the bare storage write. When the write succeeds the
  key holds the serialized current image, or the prompt text. When the write throws,
  what it threw leaves the auto-save effect, or \<^verbatim>\<open>handlePromptChange\<close>, as it is: the
  save catches nothing. The prompt field keeps the new text in both cases.
\<close>

theorem save_failure_leaves_the_save:
  "(current (imageHistory st) = Some cur
      \<and> setItem (localStorage st) ''nanoedit-saved-image'' (JSON_stringify cur) = Inl e
     \<longrightarrow> autoSave st = (Some e, st))
   \<and> (current (imageHistory st) = Some cur
      \<and> setItem (localStorage st) ''nanoedit-saved-image'' (JSON_stringify cur) = Inr ls
     \<longrightarrow> autoSave st = (None, st\<lparr> localStorage := ls \<rparr>)
         \<and> getItem ls ''nanoedit-saved-image'' = Some (JSON_stringify cur))
   \<and> (setItem (localStorage st) ''nanoedit-saved-prompt'' p = Inl e
     \<longrightarrow> handlePromptChange p st = (Some e, st\<lparr> prompt := p \<rparr>))
   \<and> (setItem (localStorage st) ''nanoedit-saved-prompt'' p = Inr ls
     \<longrightarrow> handlePromptChange p st = (None, st\<lparr> prompt := p, localStorage := ls \<rparr>)
         \<and> getItem ls ''nanoedit-saved-prompt'' = Some p)"
  by (auto simp: autoSave_def handlePromptChange_def Let_def dest: getItem_setItem)

text \<open>
  Claim C7 as amended, at concrete inputs: the two saves on a storage without room and
  on an empty storage with room.
\<close>

theorem save_failure_leaves_the_save_witness:
  "current (imageHistory (session [img ''A''] 0 [] full)) = Some (img ''A'')
   \<and> setItem (localStorage (session [img ''A''] 0 [] full :: ImageState editor))
        ''nanoedit-saved-image'' (JSON_stringify (img ''A''))
       = Inl (QuotaExceededError ''The quota has been exceeded.'')
   \<and> autoSave (session [img ''A''] 0 [] full)
       = (Some (QuotaExceededError ''The quota has been exceeded.''), session [img ''A''] 0 [] full)
   \<and> setItem (localStorage (session [img ''A''] 0 [] (roomy []) :: ImageState editor))
        ''nanoedit-saved-image'' (JSON_stringify (img ''A''))
       = Inr (roomy [(''nanoedit-saved-image'', JSON_stringify (img ''A''))])
   \<and> autoSave (session [img ''A''] 0 [] (roomy []))
       = (None, session [img ''A''] 0 []
                  (roomy [(''nanoedit-saved-image'', JSON_stringify (img ''A''))]))
   \<and> handlePromptChange ''add a hat'' (session [img ''A''] 0 [] full)
       = (Some (QuotaExceededError ''The quota has been exceeded.''),
          session [img ''A''] 0 ''add a hat'' full)
   \<and> handlePromptChange ''add a hat'' (session [img ''A''] 0 [] (roomy []))
       = (None, session [img ''A''] 0 ''add a hat''
                  (roomy [(''nanoedit-saved-prompt'', ''add a hat'')]))"
proof -
  have cur: "current (imageHistory (session [img ''A''] 0 [] ls)) = Some (img ''A'')" for ls
    by (simp add: session_def current_def js_index_def)
  have st: "localStorage (session v c p ls) = ls" for v :: "ImageState list" and c p ls
    by (simp add: session_def mounted_def)
  have upd: "(session v c p ls)\<lparr> localStorage := ls' \<rparr> = session v c p ls'
      \<and> (session v c p ls)\<lparr> prompt := p' \<rparr> = session v c p' ls
      \<and> (session v c p ls)\<lparr> prompt := p', localStorage := ls' \<rparr> = session v c p' ls'"
    for v :: "ImageState list" and c p ls p' ls'
    by (simp add: session_def mounted_def)
  have fits: "length ''nanoedit-saved-image'' + length (JSON_stringify (img ''A'')) \<le> 5000000"
    using JSON_stringify_length [of "img ''A''"] by (simp add: img_def)
  have w1: "setItem (roomy []) ''nanoedit-saved-image'' (JSON_stringify (img ''A''))
      = Inr (roomy [(''nanoedit-saved-image'', JSON_stringify (img ''A''))])"
    using fits by (rule setItem_roomy_empty)
  have w2: "setItem (roomy []) ''nanoedit-saved-prompt'' ''add a hat''
      = Inr (roomy [(''nanoedit-saved-prompt'', ''add a hat'')])"
    by (rule setItem_roomy_empty) simp
  have f1: "setItem full ''nanoedit-saved-image'' (JSON_stringify (img ''A''))
      = Inl (QuotaExceededError ''The quota has been exceeded.'')"
    by (simp add: setItem_full)
  have f2: "setItem full ''nanoedit-saved-prompt'' ''add a hat''
      = Inl (QuotaExceededError ''The quota has been exceeded.'')"
    by (simp add: setItem_full)
  show ?thesis
    using save_failure_leaves_the_save
            [of "session [img ''A''] 0 [] full" "img ''A''"
                "QuotaExceededError ''The quota has been exceeded.''"
                "roomy []" "''add a hat''"]
          save_failure_leaves_the_save
            [of "session [img ''A''] 0 [] (roomy [])" "img ''A''"
                "QuotaExceededError ''The quota has been exceeded.''"
                "roomy [(''nanoedit-saved-image'', JSON_stringify (img ''A''))]" "''add a hat''"]
          save_failure_leaves_the_save
            [of "session [img ''A''] 0 [] (roomy [])" "img ''A''"
                "QuotaExceededError ''The quota has been exceeded.''"
                "roomy [(''nanoedit-saved-prompt'', ''add a hat'')]" "''add a hat''"]
    by (simp add: cur st upd w1 w2 f1 f2)
qed

text \<open>
  Claim C7 as stated fails on a storage without room: the quota error leaves
  \<^verbatim>\<open>handlePromptChange\<close>, the auto-save effect of the canonical editor and the save
  effect of the superseded one.
\<close>

theorem save_failure_counterexample:
  "fst (handlePromptChange ''add a hat'' (session [img ''A''] 0 [] full))
     = Some (QuotaExceededError ''The quota has been exceeded.'')
   \<and> fst (autoSave (session [img ''A''] 0 [] full))
     = Some (QuotaExceededError ''The quota has been exceeded.'')
   \<and> fst (save_superseded (session [img ''A''] 0 [] full))
     = Some (QuotaExceededError ''The quota has been exceeded.'')"
  by (simp add: handlePromptChange_def autoSave_def save_superseded_def session_def mounted_def
      current_def js_index_def setItem_full Let_def SESSION_IMAGE_KEY_def)

section \<open>Properties of the image transforms\<close>

lemma source_name_png: "source_name ''image/png'' = ''source.png''"
  by (simp add: source_name_def js_split_1_def or_default_def)

lemma fetched_png:
  "dataURLtoFile platform_ok ''data:image/png;base64,AAAA'' ''source.png'' = Inr (png_file ''source.png'' ''AAAA'')
   \<and> dataURLtoFile platform_compressor_fails ''data:image/png;base64,AAAA'' ''source.png''
       = Inr (png_file ''source.png'' ''AAAA'')
   \<and> dataURLtoFile platform_reader_fails ''data:image/png;base64,AAAA'' ''source.png''
       = Inr (png_file ''source.png'' ''AAAA'')"
  by (simp add: dataURLtoFile_def platform_ok_def platform_compressor_fails_def
      platform_reader_fails_def png_file_def)

text \<open>
  Claim C8, as amended. \<^verbatim>\<open>optimizeImage\<close> always resolves, and with the input file
  when the compression fails. \<^verbatim>\<open>compressImageForDownload\<close> resolves whenever the data
  URL was converted to a file, and with the input data URL when the compression or the
  conversion back to a data URL fails; when the fetch of the data URL fails, before the
  \<^verbatim>\<open>try\<close>, it rejects with that failure.
\<close>

theorem transforms_fall_back:
  "(\<exists>g. optimizeImage env f = Inr g)
   \<and> (imageCompression env f optimize_options = Inl e \<longrightarrow> optimizeImage env f = Inr f)
   \<and> (fetch_blob env url = Inl e \<longrightarrow> compressImageForDownload env url mime q = Inl e)
   \<and> (dataURLtoFile env url (source_name mime) = Inr src
        \<longrightarrow> (\<exists>u. compressImageForDownload env url mime q = Inr u))
   \<and> (dataURLtoFile env url (source_name mime) = Inr src
        \<and> imageCompression env src (download_options q) = Inl e
        \<longrightarrow> compressImageForDownload env url mime q = Inr url)
   \<and> (dataURLtoFile env url (source_name mime) = Inr src
        \<and> imageCompression env src (download_options q) = Inr small
        \<and> getDataUrlFromFile env small = Inl e
        \<longrightarrow> compressImageForDownload env url mime q = Inr url)"
  by (auto simp: optimizeImage_def compressImageForDownload_def dataURLtoFile_def
      split: sum.splits prod.splits)

text \<open>
  Claim C8 as amended, at concrete inputs: a failing compressor under
  \<^verbatim>\<open>optimizeImage\<close>, and under \<^verbatim>\<open>compressImageForDownload\<close> a refused fetch, a failing
  compressor and a failing conversion back.
\<close>

theorem transforms_fall_back_witness:
  "imageCompression platform_failing (png_file ''photo.png'' ''AAAA'') optimize_options
     = Inl (Error ''compression failed'')
   \<and> optimizeImage platform_failing (png_file ''photo.png'' ''AAAA'') = Inr (png_file ''photo.png'' ''AAAA'')
   \<and> fetch_blob platform_failing ''data:image/png;base64,AAAA'' = Inl (TypeError ''Failed to fetch'')
   \<and> compressImageForDownload platform_failing ''data:image/png;base64,AAAA'' ''image/png'' medium
     = Inl (TypeError ''Failed to fetch'')
   \<and> dataURLtoFile platform_compressor_fails ''data:image/png;base64,AAAA'' (source_name ''image/png'')
     = Inr (png_file ''source.png'' ''AAAA'')
   \<and> imageCompression platform_compressor_fails (png_file ''source.png'' ''AAAA'') (download_options high)
     = Inl (Error ''compression failed'')
   \<and> compressImageForDownload platform_compressor_fails ''data:image/png;base64,AAAA'' ''image/png'' high
     = Inr ''data:image/png;base64,AAAA''
   \<and> dataURLtoFile platform_reader_fails ''data:image/png;base64,AAAA'' (source_name ''image/png'')
     = Inr (png_file ''source.png'' ''AAAA'')
   \<and> imageCompression platform_reader_fails (png_file ''source.png'' ''AAAA'') (download_options high)
     = Inr (png_file ''source.png'' ''AA'')
   \<and> getDataUrlFromFile platform_reader_fails (png_file ''source.png'' ''AA'') = Inl (Error ''read failed'')
   \<and> compressImageForDownload platform_reader_fails ''data:image/png;base64,AAAA'' ''image/png'' high
     = Inr ''data:image/png;base64,AAAA''"
proof -
  have c1: "imageCompression platform_failing f opts = Inl (Error ''compression failed'')
      \<and> fetch_blob platform_failing u = Inl (TypeError ''Failed to fetch'')" for f opts u
    by (simp add: platform_failing_def)
  have c2: "imageCompression platform_compressor_fails f opts = Inl (Error ''compression failed'')"
    for f opts
    by (simp add: platform_compressor_fails_def)
  have c3: "imageCompression platform_reader_fails (png_file ''source.png'' ''AAAA'') opts
        = Inr (png_file ''source.png'' ''AA'')
      \<and> getDataUrlFromFile platform_reader_fails f = Inl (Error ''read failed'')" for f opts
    by (simp add: platform_reader_fails_def platform_ok_def png_file_def)
  show ?thesis
    using transforms_fall_back
            [of platform_failing "png_file ''photo.png'' ''AAAA''" "Error ''compression failed''"
                "''data:image/png;base64,AAAA''" "''image/png''" medium]
          transforms_fall_back
            [of platform_failing "png_file ''photo.png'' ''AAAA''" "TypeError ''Failed to fetch''"
                "''data:image/png;base64,AAAA''" "''image/png''" medium]
          transforms_fall_back
            [of platform_compressor_fails "png_file ''photo.png'' ''AAAA''"
                "Error ''compression failed''" "''data:image/png;base64,AAAA''" "''image/png''"
                high "png_file ''source.png'' ''AAAA''"]
          transforms_fall_back
            [of platform_reader_fails "png_file ''photo.png'' ''AAAA''"
                "Error ''read failed''" "''data:image/png;base64,AAAA''" "''image/png''"
                high "png_file ''source.png'' ''AAAA''" "png_file ''source.png'' ''AA''"]
    by (simp add: c1 c2 c3 source_name_png fetched_png)
qed

text \<open>
  Claim C8 as stated fails where the fetch of the data URL is refused:
  \<^verbatim>\<open>compressImageForDownload\<close> rejects with the \<^verbatim>\<open>TypeError\<close> of the fetch instead of
  resolving with its input.
\<close>

theorem compress_rejects_counterexample:
  "compressImageForDownload platform_failing ''data:image/png;base64,AAAA'' ''image/png'' low
     = Inl (TypeError ''Failed to fetch'')"
  by (simp add: compressImageForDownload_def dataURLtoFile_def platform_failing_def)

text \<open>
  Claim C9. With brightness and contrast both 100, \<^verbatim>\<open>applyVisualAdjustments\<close> resolves
  with the input data URL, whatever it is, and performs no canvas operation. With any
  other percentages, a source that does not decode makes it reject with an \<^verbatim>\<open>Error\<close>.
\<close>

theorem applyVisualAdjustments_neutral_and_undecodable:
  "applyVisualAdjustments env url 100 100 = (Inr url, [])
   \<and> ((b \<noteq> 100 \<or> c \<noteq> 100) \<and> decode_image env url = Inl err
        \<longrightarrow> applyVisualAdjustments env url b c
            = (Inl (Error (''Failed to load image for adjustments: '' @ err)), []))"
  by (auto simp: applyVisualAdjustments_def)

text \<open>
  Claim C9 at concrete inputs: brightness 120 on a platform where no image decodes, and
  the neutral percentages on the same platform.
\<close>

theorem applyVisualAdjustments_neutral_and_undecodable_witness:
  "(120::real) \<noteq> 100
   \<and> decode_image platform_failing ''data:image/png;base64,AAAA'' = Inl ''[object Event]''
   \<and> applyVisualAdjustments platform_failing ''data:image/png;base64,AAAA'' 120 100
       = (Inl (Error ''Failed to load image for adjustments: [object Event]''), [])
   \<and> applyVisualAdjustments platform_failing ''data:image/png;base64,AAAA'' 100 100
       = (Inr ''data:image/png;base64,AAAA'', [])"
  using applyVisualAdjustments_neutral_and_undecodable
          [of platform_failing "''data:image/png;base64,AAAA''" 120 100 "''[object Event]''"]
  by (simp add: platform_failing_def)

end
